theory Spec2Isabelle
  imports Complex_Main "HOL-Library.Sublist"
begin

section \<open>JavaScript values used by the scraper\<close>

text \<open>
  The development embeds \<^verbatim>\<open>advanced/advanced-scraping-example.js\<close>. Strings are
  lists of 8-bit characters. A JavaScript number is either \<open>NaN\<close> or a finite value,
  held exactly as a rational (every double is one); infinities and the rounding of
  doubles are outside the model.
\<close>

datatype js_error = TypeError | RangeError

datatype jsnum = NaN | Num rat

text \<open>A property read that may give \<^verbatim>\<open>undefined\<close>: \<open>None\<close> is \<^verbatim>\<open>undefined\<close>.\<close>

type_synonym jsfield = "string option"

text \<open>Interpolation \<^verbatim>\<open>${x}\<close> of a string-or-undefined value in a template literal.\<close>

fun tmpl :: "jsfield \<Rightarrow> string" where
  "tmpl None = ''undefined''"
| "tmpl (Some s) = s"

definition digit_char :: "nat \<Rightarrow> char" where
  "digit_char d = ''0123456789abcdef'' ! d"

fun nat_digits :: "nat \<Rightarrow> string" where
  "nat_digits n = (if n < 10 then [digit_char n] else nat_digits (n div 10) @ [digit_char (n mod 10)])"

declare nat_digits.simps [simp del]

text \<open>
  The digits after the decimal point of a value \<open>0 \<le> r < 1\<close>, by long division, at most
  \<open>k\<close> of them. A double prints with at most 17 significant digits; the values the
  scraper writes (integers and results of \<^verbatim>\<open>toFixed(3)\<close>) need at most three.
\<close>

fun frac_digits :: "nat \<Rightarrow> rat \<Rightarrow> string" where
  "frac_digits 0 r = []"
| "frac_digits (Suc k) r =
     (if r = 0 then []
      else digit_char (nat \<lfloor>r * 10\<rfloor>) # frac_digits k (r * 10 - of_int \<lfloor>r * 10\<rfloor>))"

definition pos_text :: "rat \<Rightarrow> string" where
  "pos_text q =
     nat_digits (nat \<lfloor>q\<rfloor>) @
     (if q = of_int \<lfloor>q\<rfloor> then [] else CHR ''.'' # frac_digits 17 (q - of_int \<lfloor>q\<rfloor>))"

text \<open>
  \<^verbatim>\<open>String(value)\<close> of a number (also its interpolation in a template literal):
  \<^verbatim>\<open>"NaN"\<close>, or the decimal text without exponent, which is what JavaScript prints
  for magnitudes from 1e-6 up to 1e21.
\<close>

fun String_number :: "jsnum \<Rightarrow> string" where
  "String_number NaN = ''NaN''"
| "String_number (Num q) = (if q < 0 then CHR ''-'' # pos_text (- q) else pos_text q)"

text \<open>White space skipped by \<^verbatim>\<open>trim\<close> and \<^verbatim>\<open>parseInt\<close> (the ASCII part of it).\<close>

definition is_space :: "char \<Rightarrow> bool" where
  "is_space c = (c \<in> set [CHR '' '', CHR 0x09, CHR 0x0A, CHR 0x0B, CHR 0x0C, CHR 0x0D])"

definition trim :: "string \<Rightarrow> string" where
  "trim s = rev (dropWhile is_space (rev (dropWhile is_space s)))"

fun index_of :: "char \<Rightarrow> string \<Rightarrow> nat option" where
  "index_of c [] = None"
| "index_of c (x # xs) = (if x = c then Some 0 else map_option Suc (index_of c xs))"

definition digit_value :: "nat \<Rightarrow> char \<Rightarrow> nat option" where
  "digit_value radix c =
     (case index_of c ''0123456789abcdef'' of
        Some d \<Rightarrow> if d < radix then Some d else None
      | None \<Rightarrow>
          (case index_of c ''0123456789ABCDEF'' of
             Some d \<Rightarrow> if d < radix then Some d else None
           | None \<Rightarrow> None))"

fun digits_value :: "nat \<Rightarrow> nat \<Rightarrow> string \<Rightarrow> nat" where
  "digits_value radix acc [] = acc"
| "digits_value radix acc (c # cs) =
     (case digit_value radix c of
        None \<Rightarrow> acc
      | Some d \<Rightarrow> digits_value radix (acc * radix + d) cs)"

text \<open>
  \<^verbatim>\<open>parseInt(text)\<close> with no radix argument: leading white space, an optional sign, an
  optional \<^verbatim>\<open>0x\<close> prefix choosing radix 16, then the longest run of digits; \<open>NaN\<close> when
  that run is empty. \<^verbatim>\<open>parseInt(undefined)\<close> parses the text \<^verbatim>\<open>"undefined"\<close>.
\<close>

definition parseInt :: "jsfield \<Rightarrow> jsnum" where
  "parseInt v =
     (let s = dropWhile is_space (tmpl v);
          neg = (take 1 s = ''-'');
          s1 = (if take 1 s = ''-'' \<or> take 1 s = ''+'' then drop 1 s else s);
          hex = (take 2 s1 = ''0x'' \<or> take 2 s1 = ''0X'');
          radix = (if hex then 16 else 10);
          s2 = (if hex then drop 2 s1 else s1)
      in case s2 of
           [] \<Rightarrow> NaN
         | c # cs \<Rightarrow>
             (case digit_value radix c of
                None \<Rightarrow> NaN
              | Some d \<Rightarrow>
                  Num ((if neg then - 1 else 1) * of_nat (digits_value radix 0 s2))))"

text \<open>
  \<^verbatim>\<open>parseFloat(x.toFixed(3))\<close> for \<open>x \<ge> 0\<close>: the nearest multiple of 1/1000, the larger
  one on a tie.
\<close>

definition toFixed3 :: "rat \<Rightarrow> jsnum" where
  "toFixed3 x = Num (of_int \<lfloor>x * 1000 + 1 / 2\<rfloor> / 1000)"

section \<open>The row writer\<close>

text \<open>
  A \<^verbatim>\<open>Date\<close> is invalid or holds a time value, given here by its UTC fields as the
  accessors \<^verbatim>\<open>getUTCFullYear\<close>, \<^verbatim>\<open>getUTCMonth() + 1\<close>, ... report them.
\<close>

record utc_fields =
  year :: int
  month :: nat
  day :: nat
  hours :: nat
  minutes :: nat
  seconds :: nat
  millis :: nat

datatype jsdate = InvalidDate | ValidDate utc_fields

text \<open>
  The values \<^verbatim>\<open>writeCSV\<close> can be handed. \<open>JOther t\<close> is any other object (an array,
  a plain object, a function), carried by the text \<open>t\<close> that \<^verbatim>\<open>String(value)\<close> gives.
\<close>

datatype jsvalue =
    JNull
  | JUndefined
  | JNumber jsnum
  | JBoolean bool
  | JDate jsdate
  | JString string
  | JOther string

definition pad :: "nat \<Rightarrow> nat \<Rightarrow> string" where
  "pad w n = replicate (w - length (nat_digits n)) CHR ''0'' @ nat_digits n"

definition year_text :: "int \<Rightarrow> string" where
  "year_text y =
     (if 0 \<le> y \<and> y \<le> 9999 then pad 4 (nat y)
      else (if y < 0 then CHR ''-'' else CHR ''+'') # pad 6 (nat \<bar>y\<bar>))"

text \<open>\<^verbatim>\<open>Date.prototype.toISOString\<close>: throws \<^verbatim>\<open>RangeError\<close> on an invalid date.\<close>

fun toISOString :: "jsdate \<Rightarrow> js_error + string" where
  "toISOString InvalidDate = Inl RangeError"
| "toISOString (ValidDate d) =
     Inr (year_text (year d) @ ''-'' @ pad 2 (month d) @ ''-'' @ pad 2 (day d) @ ''T'' @
          pad 2 (hours d) @ '':'' @ pad 2 (minutes d) @ '':'' @ pad 2 (seconds d) @ ''.'' @
          pad 3 (millis d) @ ''Z'')"

text \<open>\<^verbatim>\<open>s.replace(c, t)\<close> with a one-character string pattern: only the first occurrence.\<close>

fun replace_first :: "char \<Rightarrow> string \<Rightarrow> string \<Rightarrow> string" where
  "replace_first c t [] = []"
| "replace_first c t (x # xs) = (if x = c then t @ xs else x # replace_first c t xs)"

text \<open>\<^verbatim>\<open>s.replace(/"/g, '""')\<close>: every double quote is doubled.\<close>

fun replace_quotes :: "string \<Rightarrow> string" where
  "replace_quotes [] = []"
| "replace_quotes (x # xs) =
     (if x = CHR 0x22 then CHR 0x22 # CHR 0x22 # replace_quotes xs else x # replace_quotes xs)"

text \<open>\<^verbatim>\<open>'"' + s.replace(/"/g, '""') + '"'\<close>.\<close>

definition quoted :: "string \<Rightarrow> string" where
  "quoted s = CHR 0x22 # replace_quotes s @ [CHR 0x22]"

text \<open>The callback of \<^verbatim>\<open>values.map\<close> in \<^verbatim>\<open>writeCSV\<close>, with its tests in source order.\<close>

fun csv_column :: "jsvalue \<Rightarrow> js_error + string" where
  "csv_column JNull = Inr []"
| "csv_column JUndefined = Inr []"
| "csv_column (JNumber n) = Inr (String_number n)"
| "csv_column (JBoolean b) = Inr (if b then ''1'' else ''0'')"
| "csv_column (JDate d) =
     (case toISOString d of
        Inl e \<Rightarrow> Inl e
      | Inr s \<Rightarrow> Inr (replace_first CHR ''Z'' [] (replace_first CHR ''T'' '' '' s)))"
| "csv_column (JString s) = Inr (quoted s)"
| "csv_column (JOther s) = Inr (quoted s)"

text \<open>Mapping the callback over the values stops at the first one that throws.\<close>

fun csv_columns :: "jsvalue list \<Rightarrow> js_error + string list" where
  "csv_columns [] = Inr []"
| "csv_columns (v # vs) =
     (case csv_column v of
        Inl e \<Rightarrow> Inl e
      | Inr c \<Rightarrow> (case csv_columns vs of Inl e \<Rightarrow> Inl e | Inr cs \<Rightarrow> Inr (c # cs)))"

text \<open>\<^verbatim>\<open>xs.join(sep)\<close>.\<close>

fun join :: "string \<Rightarrow> string list \<Rightarrow> string" where
  "join sep [] = []"
| "join sep [x] = x"
| "join sep (x # y # ys) = x @ sep @ join sep (y # ys)"

section \<open>Pages as the scraper reads them\<close>

text \<open>
  A document is held by the answers to the queries the script makes on it. A missing
  element is \<open>None\<close>: reading a property of it throws \<^verbatim>\<open>TypeError\<close>.
\<close>

text \<open>
  One \<^verbatim>\<open>.matches td.info-button\<close> cell's row on an index page: the titles of
  \<^verbatim>\<open>.team-a a\<close> and \<^verbatim>\<open>.team-b a\<close>, the text of \<^verbatim>\<open>.score a\<close>, the href of
  \<^verbatim>\<open>.info-button a\<close>, and what the division pattern captures in that href.
\<close>

record info_row =
  team_a_title :: "string option"
  team_b_title :: "string option"
  score_link :: "string option"
  info_href :: "string option"
  href_division :: "string option"

record index_document =
  content_subtree :: bool
  subnav_links :: nat
  info_rows :: "info_row list"

record pageMatch =
  home :: string
  score :: string
  away :: string
  URL :: string
  div_path :: string

text \<open>
  A row of \<^verbatim>\<open>table.matches.events\<close>: the texts of its \<^verbatim>\<open>td div\<close> elements and of
  \<^verbatim>\<open>.player-a .minute\<close>, \<^verbatim>\<open>.player-b .minute\<close>.
\<close>

record event_row =
  td_divs :: "string list"
  player_a_minute :: "string option"
  player_b_minute :: "string option"

text \<open>
  An item of \<^verbatim>\<open>ul.scorer-info\<close>: the texts of \<^verbatim>\<open>.score\<close>,
  \<^verbatim>\<open>.scorer:first-child .minute\<close> and \<^verbatim>\<open>.scorer:not(:first-child) .minute\<close>.
\<close>

record scorer_item =
  score_el :: "string option"
  first_minute :: "string option"
  other_minute :: "string option"

text \<open>
  \<open>details_spans\<close> and \<open>details_dds\<close> list, for each \<^verbatim>\<open>.details span\<close> and
  \<^verbatim>\<open>.details dd\<close>, the text of its previous element sibling (if it has one) and its
  own text.
\<close>

record match_document =
  details_spans :: "(string option \<times> string) list"
  details_dds :: "(string option \<times> string) list"
  event_rows :: "event_row list"
  scorer_items :: "scorer_item list"

record goal =
  minute :: jsnum
  team :: string
  goal_score :: string

text \<open>The callback of \<^verbatim>\<open>getMatches\<close>.\<close>

definition getMatch :: "info_row \<Rightarrow> js_error + pageMatch" where
  "getMatch tr =
     (case team_a_title tr of
        None \<Rightarrow> Inl TypeError
      | Some h \<Rightarrow>
     (case team_b_title tr of
        None \<Rightarrow> Inl TypeError
      | Some a \<Rightarrow>
     (case info_href tr of
        None \<Rightarrow> Inl TypeError
      | Some u \<Rightarrow>
     (case href_division tr of
        None \<Rightarrow> Inl TypeError
      | Some d \<Rightarrow>
          Inr \<lparr>home = h,
               score = (case score_link tr of Some t \<Rightarrow> t | None \<Rightarrow> ''999 - 999''),
               away = a, URL = u, div_path = d\<rparr>))))"

text \<open>\<^verbatim>\<open>xs.map(f)\<close> for a callback that may throw.\<close>

fun map_throwing :: "('a \<Rightarrow> js_error + 'b) \<Rightarrow> 'a list \<Rightarrow> js_error + 'b list" where
  "map_throwing f [] = Inr []"
| "map_throwing f (x # xs) =
     (case f x of
        Inl e \<Rightarrow> Inl e
      | Inr y \<Rightarrow> (case map_throwing f xs of Inl e \<Rightarrow> Inl e | Inr ys \<Rightarrow> Inr (y # ys)))"

definition getMatches :: "index_document \<Rightarrow> js_error + pageMatch list" where
  "getMatches doc = map_throwing getMatch (info_rows doc)"

text \<open>
  \<^verbatim>\<open>els.find(el => el.previousElementSibling.textContent == label)\<close>, giving the text
  of the element found.
\<close>

fun find_after :: "string \<Rightarrow> (string option \<times> string) list \<Rightarrow> js_error + string option" where
  "find_after label [] = Inr None"
| "find_after label ((None, t) # xs) = Inl TypeError"
| "find_after label ((Some p, t) # xs) =
     (if p = label then Inr (Some t) else find_after label xs)"

definition kickOff_of :: "match_document \<Rightarrow> js_error + string" where
  "kickOff_of doc =
     (case find_after ''KO'' (details_spans doc) of
        Inl e \<Rightarrow> Inl e
      | Inr (Some t) \<Rightarrow> Inr (trim t)
      | Inr None \<Rightarrow>
          (case find_after ''Kick-off'' (details_dds doc) of
             Inl e \<Rightarrow> Inl e
           | Inr (Some t) \<Rightarrow> Inr (trim t)
           | Inr None \<Rightarrow> Inl TypeError))"

text \<open>The tail of both goal callbacks, from \<^verbatim>\<open>homeMin\<close>, \<^verbatim>\<open>awayMin\<close> and the score.\<close>

definition goal_of :: "string option \<Rightarrow> string option \<Rightarrow> string \<Rightarrow> js_error + goal" where
  "goal_of homeMin awayMin sc =
     (case homeMin of
        Some t \<Rightarrow> Inr \<lparr>minute = parseInt (Some t), team = ''home'', goal_score = sc\<rparr>
      | None \<Rightarrow>
          (case awayMin of
             Some t \<Rightarrow> Inr \<lparr>minute = parseInt (Some t), team = ''away'', goal_score = sc\<rparr>
           | None \<Rightarrow> Inl TypeError))"

text \<open>(a) Scotland-style: the score is the second \<^verbatim>\<open>td div\<close>.\<close>

definition scotland_goal :: "event_row \<Rightarrow> js_error + goal" where
  "scotland_goal tr =
     (if length (td_divs tr) < 2 then Inl TypeError
      else goal_of (player_a_minute tr) (player_b_minute tr) (td_divs tr ! 1))"

text \<open>(b) England-style.\<close>

definition england_goal :: "scorer_item \<Rightarrow> js_error + goal" where
  "england_goal li =
     (case score_el li of
        None \<Rightarrow> Inl TypeError
      | Some sc \<Rightarrow> goal_of (first_minute li) (other_minute li) sc)"

text \<open>The two assignments to \<^verbatim>\<open>goals\<close>: (b) runs only if (a) gave an empty array.\<close>

definition goals_of :: "match_document \<Rightarrow> js_error + goal list" where
  "goals_of doc =
     (case map_throwing scotland_goal (event_rows doc) of
        Inl e \<Rightarrow> Inl e
      | Inr gs \<Rightarrow>
          if length gs = 0 then map_throwing england_goal (scorer_items doc) else Inr gs)"

text \<open>The goal column: \<^verbatim>\<open>goals.map(goal => `${goal.minute} : ${goal.team} : ${goal.score}`).join(' / ')\<close>.\<close>

definition goal_text :: "goal \<Rightarrow> string" where
  "goal_text g = String_number (minute g) @ '' : '' @ team g @ '' : '' @ goal_score g"

definition goals_text :: "goal list \<Rightarrow> string" where
  "goals_text gs = join '' / '' (map goal_text gs)"

section \<open>The record matcher\<close>

definition leagueMap :: "(string \<times> string) list" where
  "leagueMap =
     [(''E0'', ''england/premier-league''),
      (''E1'', ''england/championship''),
      (''E2'', ''england/league-one''),
      (''E3'', ''england/league-two''),
      (''EC'', ''england/conference''),
      (''SC0'', ''scotland/premier-league''),
      (''SC1'', ''scotland/first-division''),
      (''SC2'', ''scotland/second-division''),
      (''SC3'', ''scotland/third-division'')]"

text \<open>
  \<^verbatim>\<open>leagueMap[sourceMatch.div]\<close>: the key is the text of the field, a code outside
  the table gives \<^verbatim>\<open>undefined\<close>. (Names of members of \<^verbatim>\<open>Object.prototype\<close>, which
  a JavaScript object also answers to, are not taken as division codes.)
\<close>

definition league_of :: "jsfield \<Rightarrow> jsfield" where
  "league_of code = map_of leagueMap (tmpl code)"

text \<open>\<^verbatim>\<open>s.startsWith(p)\<close>; an \<^verbatim>\<open>undefined\<close> argument is turned into its text first.\<close>

fun startsWith :: "string \<Rightarrow> string \<Rightarrow> bool" where
  "startsWith s [] = True"
| "startsWith [] (p # ps) = False"
| "startsWith (c # cs) (p # ps) = (c = p \<and> startsWith cs ps)"

record sourceMatch =
  div_code :: jsfield
  matchdate :: jsfield
  hometeam :: jsfield
  awayteam :: jsfield
  homegoals :: jsfield
  awaygoals :: jsfield

definition score_league_ok :: "sourceMatch \<Rightarrow> pageMatch \<Rightarrow> bool" where
  "score_league_ok sm pm =
     (score pm = tmpl (homegoals sm) @ '' - '' @ tmpl (awaygoals sm) \<and>
      startsWith (div_path pm) (tmpl (league_of (div_code sm))))"

definition matchingPageMatches :: "sourceMatch \<Rightarrow> pageMatch list \<Rightarrow> pageMatch list" where
  "matchingPageMatches sm pageMatches = filter (score_league_ok sm) pageMatches"

text \<open>
  \<^verbatim>\<open>trigrams.js\<close> is loaded at run time and is not part of the embedded file, so the
  similarity is a parameter: \<open>mq c s\<close> stands for
  \<^verbatim>\<open>new Trigrams(c).matchQualityWith(new Trigrams(s))\<close>. A \<open>NaN\<close> result would fail the
  comparison below exactly as a value \<open>\<le> 0\<close> does.
\<close>

type_synonym quality = "string \<Rightarrow> string \<Rightarrow> rat"

definition joined_names :: "string \<Rightarrow> string \<Rightarrow> string" where
  "joined_names h a = h @ ''  '' @ a"

text \<open>
  \<^verbatim>\<open>matchQuality\<close> of a page match: its names joined by two spaces, against the
  source's names joined the same way.
\<close>

definition matchQuality :: "quality \<Rightarrow> sourceMatch \<Rightarrow> pageMatch \<Rightarrow> rat" where
  "matchQuality mq sm m =
     mq (joined_names (home m) (away m)) (joined_names (tmpl (hometeam sm)) (tmpl (awayteam sm)))"

text \<open>The body of the \<^verbatim>\<open>forEach\<close>, on the pair \<^verbatim>\<open>(bestMatch, bestMatchQuality)\<close>.\<close>

definition better :: "quality \<Rightarrow> sourceMatch \<Rightarrow> pageMatch option \<times> rat \<Rightarrow> pageMatch \<Rightarrow> pageMatch option \<times> rat" where
  "better mq sm best m =
     (if matchQuality mq sm m > snd best then (Some m, matchQuality mq sm m) else best)"

definition bestMatch :: "quality \<Rightarrow> sourceMatch \<Rightarrow> pageMatch list \<Rightarrow> pageMatch option \<times> rat" where
  "bestMatch mq sm ms = foldl (better mq sm) (None, 0) ms"

section \<open>Frames, the output area and the main loop\<close>

text \<open>
  The site is a function from addresses to documents: what the index frame shows once
  a date page has loaded, what it shows once the [UK] filter has refreshed it, and what
  the match frame shows for a match page. Every load and every refresh is taken to
  complete, and a frame to report the address it was given.
\<close>

record site =
  index_page :: "string \<Rightarrow> index_document"
  uk_listing :: "string \<Rightarrow> index_document"
  match_page :: "string \<Rightarrow> match_document"

datatype frame = IndexFrame | MatchFrame

text \<open>
  What the script does to the outside, in order: a navigation of a frame, a call of
  \<^verbatim>\<open>sleepBetween(min, max)\<close> (the random duration itself is not modelled), the click
  on [UK], and a line appended to the text area.
\<close>

datatype event =
    Navigate frame string
  | Sleep nat nat
  | ClickUK
  | WriteLine string

record browser =
  index_href :: string
  index_doc :: index_document
  match_href :: string
  match_doc :: match_document
  textarea :: string
  localStorage_csv :: string
  trace :: "event list"

datatype outcome = Done browser | Threw js_error browser

text \<open>\<^verbatim>\<open>await\<close> of a step that may throw, followed by the rest of the function.\<close>

fun and_then :: "outcome \<Rightarrow> (browser \<Rightarrow> outcome) \<Rightarrow> outcome" where
  "and_then (Done s) f = f s"
| "and_then (Threw e s) f = Threw e s"

definition emit :: "event \<Rightarrow> browser \<Rightarrow> browser" where
  "emit e s = s\<lparr>trace := trace s @ [e]\<rparr>"

definition blank_index :: index_document where
  "blank_index = \<lparr>content_subtree = False, subnav_links = 0, info_rows = []\<rparr>"

definition blank_match :: match_document where
  "blank_match = \<lparr>details_spans = [], details_dds = [], event_rows = [], scorer_items = []\<rparr>"

text \<open>
  The state after the script's preamble: two fresh frames, and the text area restored
  from \<^verbatim>\<open>localStorage.getItem('csv') || ''\<close>.
\<close>

definition start :: "string \<Rightarrow> browser" where
  "start stored =
     \<lparr>index_href = ''about:blank'', index_doc = blank_index,
      match_href = ''about:blank'', match_doc = blank_match,
      textarea = stored, localStorage_csv = stored, trace = []\<rparr>"

fun openURLInFrame :: "site \<Rightarrow> string \<Rightarrow> frame \<Rightarrow> browser \<Rightarrow> browser" where
  "openURLInFrame w u IndexFrame s =
     emit (Navigate IndexFrame u) (s\<lparr>index_href := u, index_doc := index_page w u\<rparr>)"
| "openURLInFrame w u MatchFrame s =
     emit (Navigate MatchFrame u) (s\<lparr>match_href := u, match_doc := match_page w u\<rparr>)"

definition sleepBetween :: "nat \<Rightarrow> nat \<Rightarrow> browser \<Rightarrow> browser" where
  "sleepBetween lo hi s = emit (Sleep lo hi) s"

text \<open>
  \<^verbatim>\<open>clickUK\<close>: observing a missing subtree or clicking a missing second sub-navigation
  link throws; otherwise the listing is refreshed.
\<close>

definition clickUK :: "site \<Rightarrow> browser \<Rightarrow> outcome" where
  "clickUK w s =
     (if \<not> content_subtree (index_doc s) \<or> subnav_links (index_doc s) < 2
      then Threw TypeError s
      else Done (emit ClickUK (s\<lparr>index_doc := uk_listing w (index_href s)\<rparr>)))"

text \<open>
  \<^verbatim>\<open>writeCSV\<close>: the line is the columns joined by commas; it is appended with a
  newline, and the whole text is saved. Scrolling is presentation only. The text area is
  taken to give back the text put into it (it does for texts without carriage returns),
  and the storage to have room.
\<close>

definition writeCSV :: "jsvalue list \<Rightarrow> browser \<Rightarrow> outcome" where
  "writeCSV vals s =
     (case csv_columns vals of
        Inl e \<Rightarrow> Threw e s
      | Inr columns \<Rightarrow>
          Done (emit (WriteLine (join '','' columns))
                  (s\<lparr>textarea := textarea s @ join '','' columns @ [CHR 0x0A],
                     localStorage_csv := textarea s @ join '','' columns @ [CHR 0x0A]\<rparr>)))"

text \<open>\<^verbatim>\<open>s.replace(/-/g, '/')\<close>.\<close>

definition dashes_to_slashes :: "string \<Rightarrow> string" where
  "dashes_to_slashes s = map (\<lambda>c. if c = CHR ''-'' then CHR ''/'' else c) s"

definition dateURL :: "string \<Rightarrow> string" where
  "dateURL d = ''https://uk.soccerway.com/matches/'' @ dashes_to_slashes d @ ''/''"

text \<open>Lines 175 to 179: the index page is loaded only if the frame is not on it already.\<close>

definition load_index :: "site \<Rightarrow> string \<Rightarrow> browser \<Rightarrow> outcome" where
  "load_index w u s =
     (if index_href s \<noteq> u
      then clickUK w (sleepBetween 1 2 (openURLInFrame w u IndexFrame s))
      else Done s)"

definition field_value :: "jsfield \<Rightarrow> jsvalue" where
  "field_value f = (case f of None \<Rightarrow> JUndefined | Some t \<Rightarrow> JString t)"

text \<open>The eleven arguments of the call of \<^verbatim>\<open>writeCSV\<close> in the loop.\<close>

definition row_values :: "sourceMatch \<Rightarrow> pageMatch option \<times> rat \<Rightarrow> string option \<Rightarrow> goal list \<Rightarrow> jsvalue list" where
  "row_values sm best kickOff goals =
     [field_value (div_code sm),
      field_value (matchdate sm),
      field_value (hometeam sm),
      field_value (awayteam sm),
      JNumber (parseInt (homegoals sm)),
      JNumber (parseInt (awaygoals sm)),
      (case kickOff of None \<Rightarrow> JNull | Some t \<Rightarrow> JString t),
      JString (goals_text goals),
      JNumber (toFixed3 (snd best)),
      (case fst best of None \<Rightarrow> JNull | Some m \<Rightarrow> JString (home m)),
      (case fst best of None \<Rightarrow> JNull | Some m \<Rightarrow> JString (away m))]"

text \<open>Lines 204 to 238, then the write and the last sleep: what follows the choice of the best match.\<close>

definition retrieve_and_save :: "site \<Rightarrow> sourceMatch \<Rightarrow> pageMatch option \<times> rat \<Rightarrow> browser \<Rightarrow> outcome" where
  "retrieve_and_save w sm best s =
     (case fst best of
        None \<Rightarrow>
          and_then (writeCSV (row_values sm best None []) s) (\<lambda>s. Done (sleepBetween 2 5 s))
      | Some m \<Rightarrow>
          (let s1 = openURLInFrame w (URL m) MatchFrame (sleepBetween 1 2 s)
           in case kickOff_of (match_doc s1) of
                Inl e \<Rightarrow> Threw e s1
              | Inr ko \<Rightarrow>
                  (case goals_of (match_doc s1) of
                     Inl e \<Rightarrow> Threw e s1
                   | Inr goals \<Rightarrow>
                       and_then (writeCSV (row_values sm best (Some ko) goals) s1)
                         (\<lambda>s. Done (sleepBetween 2 5 s)))))"

text \<open>One pass through the body of the \<^verbatim>\<open>for\<close> loop.\<close>

definition iteration :: "site \<Rightarrow> quality \<Rightarrow> sourceMatch \<Rightarrow> browser \<Rightarrow> outcome" where
  "iteration w mq sm s =
     (case matchdate sm of
        None \<Rightarrow> Threw TypeError s
      | Some d \<Rightarrow>
          and_then (load_index w (dateURL d) s)
            (\<lambda>s. case getMatches (index_doc s) of
                    Inl e \<Rightarrow> Threw e s
                  | Inr pageMatches \<Rightarrow>
                      retrieve_and_save w sm
                        (bestMatch mq sm (matchingPageMatches sm pageMatches)) s))"




text \<open>The browser a run ends in, completed or not.\<close>

fun final :: "outcome \<Rightarrow> browser" where
  "final (Done s) = s"
| "final (Threw e s) = s"

section \<open>The observer of the refreshed listing\<close>

text \<open>
  A mutation record, as far as the observer's callback reads it: the lengths of
  \<^verbatim>\<open>addedNodes\<close> and \<^verbatim>\<open>removedNodes\<close>. Records of attribute or text changes have
  both at zero.
\<close>

record mutation =
  addedNodes :: nat
  removedNodes :: nat

text \<open>
  The observer made by \<^verbatim>\<open>clickUK\<close> and the promise it settles: whether the observer
  is still connected, and how many times \<^verbatim>\<open>resolve\<close> has been called.
\<close>

record observer =
  connected :: bool
  resolved :: nat

text \<open>The state right after \<^verbatim>\<open>observer.observe(subtree, { childList: true })\<close>.\<close>

definition observing :: observer where
  "observing = \<lparr>connected = True, resolved = 0\<rparr>"

text \<open>The callback handed to \<^verbatim>\<open>new MutationObserver\<close>, on one batch of records.\<close>

definition callback :: "mutation list \<Rightarrow> observer \<Rightarrow> observer" where
  "callback mutations ob =
     (let removedOverlay = list_ex (\<lambda>m. removedNodes m > 0) mutations
      in if removedOverlay then ob\<lparr>connected := False, resolved := resolved ob + 1\<rparr> else ob)"

text \<open>The browser hands a batch to the callback only while the observer is connected.\<close>

definition deliver :: "observer \<Rightarrow> mutation list \<Rightarrow> observer" where
  "deliver ob mutations = (if connected ob then callback mutations ob else ob)"

definition deliver_all :: "mutation list list \<Rightarrow> observer \<Rightarrow> observer" where
  "deliver_all batches ob = foldl deliver ob batches"

section \<open>Notions used in the statements\<close>

text \<open>The column of a source field: nothing when it is undefined, else quoted.\<close>

definition field_column :: "jsfield \<Rightarrow> string" where
  "field_column f = (case f of None \<Rightarrow> [] | Some t \<Rightarrow> quoted t)"

definition row_columns :: "sourceMatch \<Rightarrow> pageMatch option \<times> rat \<Rightarrow> string option \<Rightarrow> goal list \<Rightarrow> string list" where
  "row_columns sm best kickOff goals =
     [field_column (div_code sm),
      field_column (matchdate sm),
      field_column (hometeam sm),
      field_column (awayteam sm),
      String_number (parseInt (homegoals sm)),
      String_number (parseInt (awaygoals sm)),
      field_column kickOff,
      quoted (goals_text goals),
      String_number (toFixed3 (snd best)),
      field_column (map_option home (fst best)),
      field_column (map_option away (fst best))]"

text \<open>The characters \<^verbatim>\<open>0\<close> to \<^verbatim>\<open>9\<close>.\<close>

definition decimal_digit :: "char \<Rightarrow> bool" where
  "decimal_digit c = (c \<in> set ''0123456789'')"


text \<open>The navigations in a trace.\<close>

fun is_navigation :: "event \<Rightarrow> bool" where
  "is_navigation (Navigate f u) = True"
| "is_navigation e = False"

definition navigations :: "event list \<Rightarrow> event list" where
  "navigations es = filter is_navigation es"


text \<open>Whether a batch of mutation records holds a removed node.\<close>

definition has_removal :: "mutation list \<Rightarrow> bool" where
  "has_removal mutations = list_ex (\<lambda>m. removedNodes m > 0) mutations"







section \<open>Sample data\<close>

text \<open>
  One fixture, an index page listing one match of the same score and division, and its
  match page in the England-style layout with three goals. Used in the examples below.
\<close>

definition sample_fixture :: sourceMatch where
  "sample_fixture =
     \<lparr>div_code = Some ''E0'', matchdate = Some ''2018-01-01'',
      hometeam = Some ''Town FC'', awayteam = Some ''City FC'',
      homegoals = Some ''2'', awaygoals = Some ''1''\<rparr>"

definition sample_index :: index_document where
  "sample_index =
     \<lparr>content_subtree = True, subnav_links = 3,
      info_rows =
        [\<lparr>team_a_title = Some ''Town F.C.'', team_b_title = Some ''City F.C.'',
          score_link = Some ''2 - 1'',
          info_href = Some ''https://uk.soccerway.com/matches/2018/01/01/england/premier-league/town/city/1/'',
          href_division = Some ''england/premier-league''\<rparr>]\<rparr>"

definition sample_match :: match_document where
  "sample_match =
     \<lparr>details_spans = [],
      details_dds = [(Some ''Date'', ''1 January 2018''), (Some ''Kick-off'', '' 15:00 '')],
      event_rows = [],
      scorer_items =
        [\<lparr>score_el = Some ''1-0'', first_minute = Some ''10'', other_minute = None\<rparr>,
         \<lparr>score_el = Some ''1-1'', first_minute = None, other_minute = Some ''55''\<rparr>,
         \<lparr>score_el = Some ''2-1'', first_minute = Some ''80'', other_minute = None\<rparr>]\<rparr>"

definition sample_site :: site where
  "sample_site =
     \<lparr>index_page = (\<lambda>u. sample_index), uk_listing = (\<lambda>u. sample_index),
      match_page = (\<lambda>u. sample_match)\<rparr>"

definition sample_pageMatch :: pageMatch where
  "sample_pageMatch =
     \<lparr>home = ''Town F.C.'', score = ''2 - 1'', away = ''City F.C.'',
      URL = ''https://uk.soccerway.com/matches/2018/01/01/england/premier-league/town/city/1/'',
      div_path = ''england/premier-league''\<rparr>"

definition sample_goals :: "goal list" where
  "sample_goals =
     [\<lparr>minute = Num 10, team = ''home'', goal_score = ''1-0''\<rparr>,
      \<lparr>minute = Num 55, team = ''away'', goal_score = ''1-1''\<rparr>,
      \<lparr>minute = Num 80, team = ''home'', goal_score = ''2-1''\<rparr>]"



section \<open>The hard filter\<close>

lemma startsWith_prefix: "startsWith s p = prefix p s"
  by (induction s p rule: startsWith.induct) auto

text \<open>
  For a division code outside the table the prefix asked for is the text
  \<^verbatim>\<open>undefined\<close>.
\<close>

lemma matchingPageMatches_unmapped:
  assumes "league_of (div_code sm) = None"
  shows "matchingPageMatches sm pageMatches =
           filter (\<lambda>pm. score pm = tmpl (homegoals sm) @ '' - '' @ tmpl (awaygoals sm) \<and>
                        prefix ''undefined'' (div_path pm)) pageMatches"
  unfolding matchingPageMatches_def score_league_ok_def startsWith_prefix assms tmpl.simps ..



section \<open>The soft rank\<close>

lemma foldl_better_none:
  "\<forall>m\<in>set ms. matchQuality mq sm m \<le> q \<Longrightarrow> foldl (better mq sm) (b, q) ms = (b, q)"
  by (induction ms) (simp_all add: better_def)

lemma foldl_better_some:
  "\<exists>m\<in>set ms. q < matchQuality mq sm m \<Longrightarrow>
   \<exists>pre c post. ms = pre @ c # post \<and>
     (\<forall>m\<in>set pre. matchQuality mq sm m < matchQuality mq sm c) \<and>
     (\<forall>m\<in>set post. matchQuality mq sm m \<le> matchQuality mq sm c) \<and>
     q < matchQuality mq sm c \<and>
     foldl (better mq sm) (b, q) ms = (Some c, matchQuality mq sm c)"
proof (induction ms arbitrary: b q)
  case Nil
  then show ?case by simp
next
  case (Cons m ms)
  let ?Q = "matchQuality mq sm"
  show ?case
  proof (cases "q < ?Q m")
    case True
    then have step: "foldl (better mq sm) (b, q) (m # ms) = foldl (better mq sm) (Some m, ?Q m) ms"
      by (simp add: better_def)
    show ?thesis
    proof (cases "\<exists>x\<in>set ms. ?Q m < ?Q x")
      case False
      then have "\<forall>x\<in>set ms. ?Q x \<le> ?Q m" by auto
      then have "foldl (better mq sm) (Some m, ?Q m) ms = (Some m, ?Q m)"
        by (rule foldl_better_none)
      with step True False show ?thesis
        by (intro exI [of _ "[]"] exI [of _ m] exI [of _ ms]) auto
    next
      case more: True
      from Cons.IH [OF more, of "Some m"] obtain pre c post where
        r: "ms = pre @ c # post" "\<forall>x\<in>set pre. ?Q x < ?Q c" "\<forall>x\<in>set post. ?Q x \<le> ?Q c"
           "?Q m < ?Q c" "foldl (better mq sm) (Some m, ?Q m) ms = (Some c, ?Q c)"
        by blast
      with step True show ?thesis
        by (intro exI [of _ "m # pre"] exI [of _ c] exI [of _ post]) auto
    qed
  next
    case False
    then have step: "foldl (better mq sm) (b, q) (m # ms) = foldl (better mq sm) (b, q) ms"
      by (simp add: better_def)
    from False Cons.prems have "\<exists>x\<in>set ms. q < ?Q x" by auto
    from Cons.IH [OF this, of b] obtain pre c post where
      r: "ms = pre @ c # post" "\<forall>x\<in>set pre. ?Q x < ?Q c" "\<forall>x\<in>set post. ?Q x \<le> ?Q c"
         "q < ?Q c" "foldl (better mq sm) (b, q) ms = (Some c, ?Q c)"
      by blast
    with step False show ?thesis
      by (intro exI [of _ "m # pre"] exI [of _ c] exI [of _ post]) auto
  qed
qed

text \<open>
  C3, as the code has it. If some page match that passed the filter has a match quality
  above zero, the one chosen has the highest quality of them all, and every page match
  before it in the list has a strictly lower quality: of several with the highest
  quality, the first is kept. If none has a quality above zero, none is chosen.
\<close>

theorem bestMatch_first_highest:
  "((\<exists>m\<in>set (matchingPageMatches sm pageMatches). 0 < matchQuality mq sm m) \<longrightarrow>
      (\<exists>pre c post.
         matchingPageMatches sm pageMatches = pre @ c # post \<and>
         (\<forall>m\<in>set pre. matchQuality mq sm m < matchQuality mq sm c) \<and>
         (\<forall>m\<in>set post. matchQuality mq sm m \<le> matchQuality mq sm c) \<and>
         bestMatch mq sm (matchingPageMatches sm pageMatches) = (Some c, matchQuality mq sm c))) \<and>
   (\<not> (\<exists>m\<in>set (matchingPageMatches sm pageMatches). 0 < matchQuality mq sm m) \<longrightarrow>
      bestMatch mq sm (matchingPageMatches sm pageMatches) = (None, 0))"
proof (intro conjI impI)
  assume "\<exists>m\<in>set (matchingPageMatches sm pageMatches). 0 < matchQuality mq sm m"
  from foldl_better_some [OF this, of None]
  show "\<exists>pre c post.
         matchingPageMatches sm pageMatches = pre @ c # post \<and>
         (\<forall>m\<in>set pre. matchQuality mq sm m < matchQuality mq sm c) \<and>
         (\<forall>m\<in>set post. matchQuality mq sm m \<le> matchQuality mq sm c) \<and>
         bestMatch mq sm (matchingPageMatches sm pageMatches) = (Some c, matchQuality mq sm c)"
    unfolding bestMatch_def by blast
next
  assume "\<not> (\<exists>m\<in>set (matchingPageMatches sm pageMatches). 0 < matchQuality mq sm m)"
  then have "\<forall>m\<in>set (matchingPageMatches sm pageMatches). matchQuality mq sm m \<le> 0"
    by (auto simp: not_less)
  then show "bestMatch mq sm (matchingPageMatches sm pageMatches) = (None, 0)"
    unfolding bestMatch_def by (rule foldl_better_none)
qed

theorem bestMatch_first_highest_witness:
  "(\<exists>m\<in>set (matchingPageMatches
        \<lparr>div_code = Some ''E0'', matchdate = Some ''2018-01-01'',
          hometeam = Some ''Town'', awayteam = Some ''City'',
          homegoals = Some ''2'', awaygoals = Some ''1''\<rparr>
        [\<lparr>home = ''Down'', score = ''2 - 1'', away = ''City'', URL = ''u1'', div_path = ''england/premier-league''\<rparr>,
         \<lparr>home = ''Town'', score = ''2 - 1'', away = ''City'', URL = ''u2'', div_path = ''england/premier-league''\<rparr>,
         \<lparr>home = ''Town'', score = ''2 - 1'', away = ''City'', URL = ''u3'', div_path = ''england/premier-league''\<rparr>]).
      0 < matchQuality (\<lambda>c s. if c = s then 1 else if drop 1 c = drop 1 s then 1 / 2 else 0)
        \<lparr>div_code = Some ''E0'', matchdate = Some ''2018-01-01'',
          hometeam = Some ''Town'', awayteam = Some ''City'',
          homegoals = Some ''2'', awaygoals = Some ''1''\<rparr> m) \<and>
   bestMatch (\<lambda>c s. if c = s then 1 else if drop 1 c = drop 1 s then 1 / 2 else 0)
     \<lparr>div_code = Some ''E0'', matchdate = Some ''2018-01-01'',
       hometeam = Some ''Town'', awayteam = Some ''City'',
       homegoals = Some ''2'', awaygoals = Some ''1''\<rparr>
     (matchingPageMatches
        \<lparr>div_code = Some ''E0'', matchdate = Some ''2018-01-01'',
          hometeam = Some ''Town'', awayteam = Some ''City'',
          homegoals = Some ''2'', awaygoals = Some ''1''\<rparr>
        [\<lparr>home = ''Down'', score = ''2 - 1'', away = ''City'', URL = ''u1'', div_path = ''england/premier-league''\<rparr>,
         \<lparr>home = ''Town'', score = ''2 - 1'', away = ''City'', URL = ''u2'', div_path = ''england/premier-league''\<rparr>,
         \<lparr>home = ''Town'', score = ''2 - 1'', away = ''City'', URL = ''u3'', div_path = ''england/premier-league''\<rparr>])
   = (Some \<lparr>home = ''Town'', score = ''2 - 1'', away = ''City'', URL = ''u2'', div_path = ''england/premier-league''\<rparr>, 1)"
proof -
  let ?sm = "\<lparr>div_code = Some ''E0'', matchdate = Some ''2018-01-01'',
       hometeam = Some ''Town'', awayteam = Some ''City'',
       homegoals = Some ''2'', awaygoals = Some ''1''\<rparr>"
  let ?pms = "[\<lparr>home = ''Down'', score = ''2 - 1'', away = ''City'', URL = ''u1'', div_path = ''england/premier-league''\<rparr>,
       \<lparr>home = ''Town'', score = ''2 - 1'', away = ''City'', URL = ''u2'', div_path = ''england/premier-league''\<rparr>,
       \<lparr>home = ''Town'', score = ''2 - 1'', away = ''City'', URL = ''u3'', div_path = ''england/premier-league''\<rparr>]"
  let ?mq = "\<lambda>c s::string. if c = s then 1 else if drop 1 c = drop 1 s then 1 / 2 else (0::rat)"
  have h: "\<exists>m\<in>set (matchingPageMatches ?sm ?pms). 0 < matchQuality ?mq ?sm m"
    by code_simp
  have ms: "matchingPageMatches ?sm ?pms = ?pms"
    by code_simp
  have q: "map (matchQuality ?mq ?sm) ?pms = [1 / 2, 1, 1]"
    by code_simp
  from bestMatch_first_highest [of ?sm ?pms ?mq] h obtain pre c post where
    r: "matchingPageMatches ?sm ?pms = pre @ c # post"
       "\<forall>m\<in>set pre. matchQuality ?mq ?sm m < matchQuality ?mq ?sm c"
       "\<forall>m\<in>set post. matchQuality ?mq ?sm m \<le> matchQuality ?mq ?sm c"
       "bestMatch ?mq ?sm (matchingPageMatches ?sm ?pms) = (Some c, matchQuality ?mq ?sm c)"
    by blast
  from r(1) ms have "pre = [] \<and> c = ?pms ! 0 \<or> pre = [?pms ! 0] \<and> c = ?pms ! 1 \<or>
      pre = [?pms ! 0, ?pms ! 1] \<and> c = ?pms ! 2"
    by (auto simp: Cons_eq_append_conv)
  then have "pre = [?pms ! 0] \<and> c = ?pms ! 1"
    using r(1,2,3) ms q by auto
  with r(4) q h show ?thesis by simp
qed

text \<open>
  The claim as worded fails where the highest quality is zero: a single page match that
  passes the filter but shares nothing with the source's names is the first (and only)
  one with the highest quality, and it is not chosen.
\<close>

theorem bestMatch_zero_quality_counterexample:
  "matchingPageMatches
     \<lparr>div_code = Some ''E0'', matchdate = Some ''2018-01-01'',
       hometeam = Some ''Town'', awayteam = Some ''City'',
       homegoals = Some ''2'', awaygoals = Some ''1''\<rparr>
     [\<lparr>home = ''Rovers'', score = ''2 - 1'', away = ''United'', URL = ''u1'', div_path = ''england/premier-league''\<rparr>]
   = [\<lparr>home = ''Rovers'', score = ''2 - 1'', away = ''United'', URL = ''u1'', div_path = ''england/premier-league''\<rparr>] \<and>
   fst (bestMatch (\<lambda>c s. if c = s then 1 else 0)
     \<lparr>div_code = Some ''E0'', matchdate = Some ''2018-01-01'',
       hometeam = Some ''Town'', awayteam = Some ''City'',
       homegoals = Some ''2'', awaygoals = Some ''1''\<rparr>
     (matchingPageMatches
        \<lparr>div_code = Some ''E0'', matchdate = Some ''2018-01-01'',
          hometeam = Some ''Town'', awayteam = Some ''City'',
          homegoals = Some ''2'', awaygoals = Some ''1''\<rparr>
        [\<lparr>home = ''Rovers'', score = ''2 - 1'', away = ''United'', URL = ''u1'', div_path = ''england/premier-league''\<rparr>]))
   \<noteq> Some \<lparr>home = ''Rovers'', score = ''2 - 1'', away = ''United'', URL = ''u1'', div_path = ''england/premier-league''\<rparr>"
  by code_simp

section \<open>The written row\<close>

lemma csv_columns_row_values:
  "csv_columns (row_values sm best kickOff goals) = Inr (row_columns sm best kickOff goals)"
  by (simp add: row_values_def row_columns_def field_value_def field_column_def
      split: option.splits)

lemma writeCSV_row_values:
  "writeCSV (row_values sm best kickOff goals) s =
     Done (emit (WriteLine (join '','' (row_columns sm best kickOff goals)))
             (s\<lparr>textarea := textarea s @ join '','' (row_columns sm best kickOff goals) @ [CHR 0x0A],
                localStorage_csv := textarea s @ join '','' (row_columns sm best kickOff goals) @ [CHR 0x0A]\<rparr>))"
  by (simp add: writeCSV_def csv_columns_row_values)

lemma toFixed3_zero: "String_number (toFixed3 0) = ''0''"
  by code_simp

text \<open>
  C10. If every page match that passed the filter has match quality zero (or below),
  then whatever their number no match is chosen and the quality stays 0; the iteration
  then loads no match page and writes one line whose kick-off and matched-name columns
  are empty, whose goal column is the empty text (written as two quote characters, as
  every text is quoted) and whose quality column is \<^verbatim>\<open>0\<close>.
\<close>

theorem zero_quality_is_no_match:
  assumes "\<forall>m\<in>set (matchingPageMatches sm pageMatches). matchQuality mq sm m \<le> 0"
    and "matchdate sm = Some d"
    and "load_index w (dateURL d) s = Done s1"
    and "getMatches (index_doc s1) = Inr pageMatches"
  shows "bestMatch mq sm (matchingPageMatches sm pageMatches) = (None, 0) \<and>
         (let line = join '',''
              [field_column (div_code sm), field_column (matchdate sm),
               field_column (hometeam sm), field_column (awayteam sm),
               String_number (parseInt (homegoals sm)), String_number (parseInt (awaygoals sm)),
               [], [CHR 0x22, CHR 0x22], ''0'', [], []]
          in iteration w mq sm s =
               Done (s1\<lparr>textarea := textarea s1 @ line @ [CHR 0x0A],
                        localStorage_csv := textarea s1 @ line @ [CHR 0x0A],
                        trace := trace s1 @ [WriteLine line, Sleep 2 5]\<rparr>))"
proof -
  have best: "bestMatch mq sm (matchingPageMatches sm pageMatches) = (None, 0)"
    unfolding bestMatch_def using assms(1) by (rule foldl_better_none)
  have cols: "row_columns sm (None, 0) None [] =
      [field_column (div_code sm), field_column (matchdate sm),
       field_column (hometeam sm), field_column (awayteam sm),
       String_number (parseInt (homegoals sm)), String_number (parseInt (awaygoals sm)),
       [], [CHR 0x22, CHR 0x22], ''0'', [], []]"
    by (simp add: row_columns_def field_column_def goals_text_def quoted_def toFixed3_zero)
  have "iteration w mq sm s = retrieve_and_save w sm (None, 0) s1"
    using assms(2,3,4) best by (simp add: iteration_def)
  also have "\<dots> = Done (s1\<lparr>textarea := textarea s1 @ join '','' (row_columns sm (None, 0) None []) @ [CHR 0x0A],
                       localStorage_csv := textarea s1 @ join '','' (row_columns sm (None, 0) None []) @ [CHR 0x0A],
                       trace := trace s1 @ [WriteLine (join '','' (row_columns sm (None, 0) None [])), Sleep 2 5]\<rparr>)"
    by (simp add: retrieve_and_save_def writeCSV_row_values sleepBetween_def emit_def)
  finally show ?thesis using best cols by (simp add: Let_def)
qed

theorem zero_quality_is_no_match_witness:
  "map (matchQuality (\<lambda>c s. if c = s then 1 else 0) sample_fixture)
     (matchingPageMatches sample_fixture
        [\<lparr>home = ''Town F.C.'', score = ''2 - 1'', away = ''City F.C.'',
          URL = ''https://uk.soccerway.com/matches/2018/01/01/england/premier-league/town/city/1/'',
          div_path = ''england/premier-league''\<rparr>]) = [0] \<and>
   matchdate sample_fixture = Some ''2018-01-01'' \<and>
   load_index sample_site (dateURL ''2018-01-01'') (start []) =
     Done (final (load_index sample_site (dateURL ''2018-01-01'') (start []))) \<and>
   getMatches (index_doc (final (load_index sample_site (dateURL ''2018-01-01'') (start [])))) =
     Inr [\<lparr>home = ''Town F.C.'', score = ''2 - 1'', away = ''City F.C.'',
          URL = ''https://uk.soccerway.com/matches/2018/01/01/england/premier-league/town/city/1/'',
          div_path = ''england/premier-league''\<rparr>] \<and>
   textarea (final (iteration sample_site (\<lambda>c s. if c = s then 1 else 0) sample_fixture (start []))) =
     [CHR 0x22] @ ''E0'' @ [CHR 0x22] @ '','' @ [CHR 0x22] @ ''2018-01-01'' @ [CHR 0x22] @ '','' @
     [CHR 0x22] @ ''Town FC'' @ [CHR 0x22] @ '','' @ [CHR 0x22] @ ''City FC'' @ [CHR 0x22] @
     '',2,1,,'' @ [CHR 0x22, CHR 0x22] @ '',0,,'' @ [CHR 0x0A]"
proof -
  let ?mq = "\<lambda>c s::string. if c = s then 1 else (0::rat)"
  let ?pms = "[\<lparr>home = ''Town F.C.'', score = ''2 - 1'', away = ''City F.C.'',
          URL = ''https://uk.soccerway.com/matches/2018/01/01/england/premier-league/town/city/1/'',
          div_path = ''england/premier-league''\<rparr>]"
  let ?o1 = "load_index sample_site (dateURL ''2018-01-01'') (start [])"
  let ?line = "[CHR 0x22] @ ''E0'' @ [CHR 0x22] @ '','' @ [CHR 0x22] @ ''2018-01-01'' @ [CHR 0x22] @ '','' @
     [CHR 0x22] @ ''Town FC'' @ [CHR 0x22] @ '','' @ [CHR 0x22] @ ''City FC'' @ [CHR 0x22] @
     '',2,1,,'' @ [CHR 0x22, CHR 0x22] @ '',0,,''"
  have q: "map (matchQuality ?mq sample_fixture) (matchingPageMatches sample_fixture ?pms) = [0]"
    by code_simp
  have "\<forall>v\<in>set (map (matchQuality ?mq sample_fixture) (matchingPageMatches sample_fixture ?pms)). v \<le> 0"
    unfolding q by simp
  then have h1: "\<forall>m\<in>set (matchingPageMatches sample_fixture ?pms). matchQuality ?mq sample_fixture m \<le> 0"
    by simp
  have h2: "matchdate sample_fixture = Some ''2018-01-01''"
    by code_simp
  have "case ?o1 of Done s \<Rightarrow> True | Threw e s \<Rightarrow> False"
    by code_simp
  then have h3: "?o1 = Done (final ?o1)"
    by (cases ?o1) simp_all
  have h4: "getMatches (index_doc (final ?o1)) = Inr ?pms"
    by code_simp
  have cols: "join '',''
      [field_column (div_code sample_fixture), field_column (matchdate sample_fixture),
       field_column (hometeam sample_fixture), field_column (awayteam sample_fixture),
       String_number (parseInt (homegoals sample_fixture)),
       String_number (parseInt (awaygoals sample_fixture)),
       [], [CHR 0x22, CHR 0x22], ''0'', [], []] = ?line"
    by code_simp
  have t: "textarea (final ?o1) = []"
    by code_simp
  note r = zero_quality_is_no_match [OF h1 h2 h3 h4, unfolded Let_def cols, THEN conjunct2]
  have "textarea (final (iteration sample_site ?mq sample_fixture (start []))) =
      textarea (final ?o1) @ ?line @ [CHR 0x0A]"
    by (subst r) simp
  then have "textarea (final (iteration sample_site ?mq sample_fixture (start []))) = ?line @ [CHR 0x0A]"
    unfolding t by simp
  then have "textarea (final (iteration sample_site ?mq sample_fixture (start []))) =
     [CHR 0x22] @ ''E0'' @ [CHR 0x22] @ '','' @ [CHR 0x22] @ ''2018-01-01'' @ [CHR 0x22] @ '','' @
     [CHR 0x22] @ ''Town FC'' @ [CHR 0x22] @ '','' @ [CHR 0x22] @ ''City FC'' @ [CHR 0x22] @
     '',2,1,,'' @ [CHR 0x22, CHR 0x22] @ '',0,,'' @ [CHR 0x0A]"
    by (simp only: append_assoc)
  with q h2 h3 h4 show ?thesis by blast
qed

section \<open>Columns by kind of value\<close>

lemma digit_char_decimal: "d < 10 \<Longrightarrow> decimal_digit (digit_char d)"
proof -
  assume "d < 10"
  then have "d \<in> {0, 1, 2, 3, 4, 5, 6, 7, 8, 9}" by auto
  then show ?thesis by (auto simp: digit_char_def decimal_digit_def)
qed

lemma nat_digits_decimal: "\<forall>c\<in>set (nat_digits n). decimal_digit c"
proof (induction n rule: nat_digits.induct)
  case (1 n)
  show ?case
  proof (cases "n < 10")
    case True
    then show ?thesis
      using digit_char_decimal [of n] by (subst nat_digits.simps) simp
  next
    case False
    have "n mod 10 < 10" by simp
    from digit_char_decimal [OF this] "1" [OF False] False show ?thesis
      by (subst nat_digits.simps) simp
  qed
qed














lemma decimal_digit_value: "decimal_digit c \<Longrightarrow> \<exists>d. digit_value 10 c = Some d"
  by (auto simp: decimal_digit_def digit_value_def)

lemma decimal_digit_plain:
  "decimal_digit c \<Longrightarrow> \<not> is_space c \<and> c \<noteq> CHR ''-'' \<and> c \<noteq> CHR ''+'' \<and> c \<noteq> CHR ''x'' \<and> c \<noteq> CHR ''X''"
  by (auto simp: decimal_digit_def is_space_def)

lemma digit_value_digit_char: "d < 10 \<Longrightarrow> digit_value 10 (digit_char d) = Some d"
proof -
  assume "d < 10"
  then have "d \<in> {0, 1, 2, 3, 4, 5, 6, 7, 8, 9}" by auto
  then show ?thesis by (auto simp: digit_char_def digit_value_def)
qed

lemma digits_value_append:
  "\<forall>c\<in>set xs. \<exists>d. digit_value r c = Some d \<Longrightarrow>
   digits_value r acc (xs @ ys) = digits_value r (digits_value r acc xs) ys"
  by (induction xs arbitrary: acc) auto

lemma digits_value_nat_digits: "digits_value 10 0 (nat_digits n) = n"
proof (induction n rule: nat_digits.induct)
  case (1 n)
  show ?case
  proof (cases "n < 10")
    case True
    then show ?thesis
      by (subst nat_digits.simps) (simp add: digit_value_digit_char)
  next
    case False
    have m: "n mod 10 < 10" by simp
    have all: "\<forall>c\<in>set (nat_digits (n div 10)). \<exists>d. digit_value 10 c = Some d"
      using nat_digits_decimal [of "n div 10"] decimal_digit_value by blast
    have "digits_value 10 0 (nat_digits (n div 10) @ [digit_char (n mod 10)]) =
        digits_value 10 (n div 10) [digit_char (n mod 10)]"
      using digits_value_append [OF all, of 0 "[digit_char (n mod 10)]"] "1" [OF False] by simp
    also have "\<dots> = n div 10 * 10 + n mod 10"
      by (simp add: digit_value_digit_char [OF m])
    finally show ?thesis
      using False by (subst nat_digits.simps) simp
  qed
qed

lemma nat_digits_Cons: "\<exists>c cs. nat_digits n = c # cs"
  by (subst nat_digits.simps) (cases "nat_digits (n div 10)"; simp)

text \<open>
  The text written for a natural number is its decimal text: \<^verbatim>\<open>parseInt\<close> reads the
  number back from it.
\<close>

lemma parseInt_String_number:
  "parseInt (Some (String_number (Num (of_nat n)))) = Num (of_nat n)"
proof -
  obtain c cs where ds: "nat_digits n = c # cs"
    using nat_digits_Cons by blast
  have all: "\<forall>x\<in>set (c # cs). decimal_digit x"
    using nat_digits_decimal [of n] ds by simp
  then have c: "decimal_digit c" by simp
  note p = decimal_digit_plain [OF c]
  have two: "take 2 (c # cs) \<noteq> ''0x'' \<and> take 2 (c # cs) \<noteq> ''0X''"
  proof (cases cs)
    case Nil
    then show ?thesis by simp
  next
    case (Cons y ys)
    with all have "decimal_digit y" by simp
    from decimal_digit_plain [OF this] Cons show ?thesis by simp
  qed
  obtain d where d: "digit_value 10 c = Some d"
    using decimal_digit_value [OF c] by blast
  have str: "String_number (Num (of_nat n)) = c # cs"
    using ds by (simp add: pos_text_def)
  have s: "dropWhile is_space (c # cs) = c # cs"
    using p by simp
  have n1: "(take 1 (c # cs) = ''-'') = False" and n2: "(take 1 (c # cs) = ''+'') = False"
    using p by simp_all
  have n3: "(take 2 (c # cs) = ''0x'') = False" and n4: "(take 2 (c # cs) = ''0X'') = False"
    using two by simp_all
  have "parseInt (Some (c # cs)) = Num (of_nat (digits_value 10 0 (c # cs)))"
    unfolding parseInt_def Let_def tmpl.simps s
    by (simp only: n1 n2 n3 n4 if_False simp_thms list.case d option.case mult_1)
  then show ?thesis
    unfolding str using digits_value_nat_digits [of n] ds by simp
qed




section \<open>The two layouts of the goal list\<close>

lemma map_throwing_Nil_iff: "map_throwing f xs = Inr [] \<longleftrightarrow> xs = []"
  by (cases xs) (auto split: sum.splits)

lemma map_throwing_all_Inr:
  "\<forall>x\<in>set xs. \<exists>y. f x = Inr y \<Longrightarrow> \<exists>ys. map_throwing f xs = Inr ys \<and> length ys = length xs"
  by (induction xs) (auto split: sum.splits)

lemma england_goal_Inr:
  "score_el li \<noteq> None \<Longrightarrow> first_minute li \<noteq> None \<or> other_minute li \<noteq> None \<Longrightarrow>
   \<exists>g. england_goal li = Inr g"
  by (auto simp: england_goal_def goal_of_def split: option.splits)

text \<open>
  C9. The Scotland-style extraction gives no goal exactly when the page has no row of
  that layout. Then the result is the England-style extraction's, and it is a goal list
  (no error) whenever each England-style item has a score and a minute. When the page has
  Scotland-style rows the result is the Scotland-style extraction's, whatever the
  England-style items are: they are not looked at.
\<close>

theorem goals_layout_fallback:
  "(map_throwing scotland_goal (event_rows doc) = Inr [] \<longleftrightarrow> event_rows doc = []) \<and>
   (event_rows doc = [] \<longrightarrow> goals_of doc = map_throwing england_goal (scorer_items doc)) \<and>
   (event_rows doc = [] \<and>
    (\<forall>li\<in>set (scorer_items doc).
       score_el li \<noteq> None \<and> (first_minute li \<noteq> None \<or> other_minute li \<noteq> None)) \<longrightarrow>
      (\<exists>goals. goals_of doc = Inr goals \<and> length goals = length (scorer_items doc))) \<and>
   (event_rows doc \<noteq> [] \<longrightarrow>
      goals_of doc = map_throwing scotland_goal (event_rows doc) \<and>
      goals_of (doc\<lparr>scorer_items := items\<rparr>) = goals_of doc)"
proof -
  have a: "map_throwing scotland_goal (event_rows doc) = Inr [] \<longleftrightarrow> event_rows doc = []"
    by (rule map_throwing_Nil_iff)
  have b: "event_rows doc = [] \<longrightarrow> goals_of doc = map_throwing england_goal (scorer_items doc)"
    by (simp add: goals_of_def)
  have c: "event_rows doc = [] \<and>
    (\<forall>li\<in>set (scorer_items doc).
       score_el li \<noteq> None \<and> (first_minute li \<noteq> None \<or> other_minute li \<noteq> None)) \<longrightarrow>
      (\<exists>goals. goals_of doc = Inr goals \<and> length goals = length (scorer_items doc))"
  proof
    assume h: "event_rows doc = [] \<and>
      (\<forall>li\<in>set (scorer_items doc).
         score_el li \<noteq> None \<and> (first_minute li \<noteq> None \<or> other_minute li \<noteq> None))"
    then have "\<forall>li\<in>set (scorer_items doc). \<exists>g. england_goal li = Inr g"
      using england_goal_Inr by blast
    from map_throwing_all_Inr [OF this] h show
      "\<exists>goals. goals_of doc = Inr goals \<and> length goals = length (scorer_items doc)"
      by (simp add: goals_of_def)
  qed
  have d: "event_rows doc \<noteq> [] \<longrightarrow>
      goals_of doc = map_throwing scotland_goal (event_rows doc) \<and>
      goals_of (doc\<lparr>scorer_items := items\<rparr>) = goals_of doc"
    using map_throwing_Nil_iff [of scotland_goal "event_rows doc"]
    by (auto simp: goals_of_def split: sum.splits)
  from a b c d show ?thesis by blast
qed

theorem goals_layout_fallback_witness:
  "event_rows sample_match = [] \<and>
   list_all (\<lambda>li. score_el li \<noteq> None \<and> (first_minute li \<noteq> None \<or> other_minute li \<noteq> None))
     (scorer_items sample_match) \<and>
   goals_of sample_match =
     Inr [\<lparr>minute = Num 10, team = ''home'', goal_score = ''1-0''\<rparr>,
          \<lparr>minute = Num 55, team = ''away'', goal_score = ''1-1''\<rparr>,
          \<lparr>minute = Num 80, team = ''home'', goal_score = ''2-1''\<rparr>] \<and>
   event_rows (sample_match\<lparr>event_rows :=
       [\<lparr>td_divs = [''x'', ''1 - 0''], player_a_minute = Some ''12'', player_b_minute = None\<rparr>]\<rparr>) \<noteq> [] \<and>
   goals_of (sample_match\<lparr>event_rows :=
       [\<lparr>td_divs = [''x'', ''1 - 0''], player_a_minute = Some ''12'', player_b_minute = None\<rparr>]\<rparr>) =
     Inr [\<lparr>minute = Num 12, team = ''home'', goal_score = ''1 - 0''\<rparr>]"
proof -
  let ?sc = "sample_match\<lparr>event_rows :=
       [\<lparr>td_divs = [''x'', ''1 - 0''], player_a_minute = Some ''12'', player_b_minute = None\<rparr>]\<rparr>"
  have e: "event_rows sample_match = []" by code_simp
  have ok: "list_all (\<lambda>li. score_el li \<noteq> None \<and> (first_minute li \<noteq> None \<or> other_minute li \<noteq> None))
     (scorer_items sample_match)" by code_simp
  have eng: "map_throwing england_goal (scorer_items sample_match) =
     Inr [\<lparr>minute = Num 10, team = ''home'', goal_score = ''1-0''\<rparr>,
          \<lparr>minute = Num 55, team = ''away'', goal_score = ''1-1''\<rparr>,
          \<lparr>minute = Num 80, team = ''home'', goal_score = ''2-1''\<rparr>]" by code_simp
  have ne: "event_rows ?sc \<noteq> []" by code_simp
  have sco: "map_throwing scotland_goal (event_rows ?sc) =
     Inr [\<lparr>minute = Num 12, team = ''home'', goal_score = ''1 - 0''\<rparr>]" by code_simp
  from goals_layout_fallback [of sample_match] e eng
  have 1: "goals_of sample_match =
     Inr [\<lparr>minute = Num 10, team = ''home'', goal_score = ''1-0''\<rparr>,
          \<lparr>minute = Num 55, team = ''away'', goal_score = ''1-1''\<rparr>,
          \<lparr>minute = Num 80, team = ''home'', goal_score = ''2-1''\<rparr>]"
    by metis
  from goals_layout_fallback [of ?sc] ne sco
  have 2: "goals_of ?sc = Inr [\<lparr>minute = Num 12, team = ''home'', goal_score = ''1 - 0''\<rparr>]"
    by metis
  from e ok 1 ne 2 show ?thesis by blast
qed

section \<open>The sample fixture, end to end\<close>

lemma sample_load_index:
  "load_index sample_site (dateURL ''2018-01-01'') (start []) =
     Done (final (load_index sample_site (dateURL ''2018-01-01'') (start [])))"
proof -
  have "case load_index sample_site (dateURL ''2018-01-01'') (start []) of
          Done s \<Rightarrow> True | Threw e s \<Rightarrow> False"
    by code_simp
  then show ?thesis
    by (cases "load_index sample_site (dateURL ''2018-01-01'') (start [])") simp_all
qed

lemma sample_getMatches:
  "getMatches (index_doc (final (load_index sample_site (dateURL ''2018-01-01'') (start [])))) =
     Inr [sample_pageMatch]"
  by code_simp

lemma sample_matching: "matchingPageMatches sample_fixture [sample_pageMatch] = [sample_pageMatch]"
  by code_simp

lemma sample_quality:
  "matchQuality mq sample_fixture sample_pageMatch = mq ''Town F.C.  City F.C.'' ''Town FC  City FC''"
  by (simp add: matchQuality_def sample_fixture_def sample_pageMatch_def joined_names_def)

lemma sample_bestMatch:
  "0 < mq ''Town F.C.  City F.C.'' ''Town FC  City FC'' \<Longrightarrow>
   bestMatch mq sample_fixture [sample_pageMatch] =
     (Some sample_pageMatch, mq ''Town F.C.  City F.C.'' ''Town FC  City FC'')"
  by (simp add: bestMatch_def better_def sample_quality)

lemma sample_match_page: "match_page sample_site u = sample_match"
  by (simp add: sample_site_def)

lemma sample_kickOff: "kickOff_of sample_match = Inr ''15:00''"
  by code_simp

lemma sample_goals_of: "goals_of sample_match = Inr sample_goals"
  by code_simp

lemma sample_goals_text:
  "goals_text sample_goals = ''10 : home : 1-0 / 55 : away : 1-1 / 80 : home : 2-1''"
  by code_simp

lemma sample_source_columns:
  "field_column (div_code sample_fixture) = quoted ''E0'' \<and>
   field_column (matchdate sample_fixture) = quoted ''2018-01-01'' \<and>
   field_column (hometeam sample_fixture) = quoted ''Town FC'' \<and>
   field_column (awayteam sample_fixture) = quoted ''City FC'' \<and>
   String_number (parseInt (homegoals sample_fixture)) = ''2'' \<and>
   String_number (parseInt (awaygoals sample_fixture)) = ''1''"
  by code_simp

text \<open>
  C8, as the code has it. For the sample fixture, its index page and its match page, and
  any similarity that rates the two pairs of names above zero, the iteration writes one
  line of eleven columns; the goal column is the quoted text of the three goals in page
  order, each as minute, team and score separated by \<^verbatim>\<open>" : "\<close> (a colon between two
  spaces), the goals separated by \<^verbatim>\<open>" / "\<close>.
\<close>

theorem sample_row_goal_column:
  assumes "0 < mq ''Town F.C.  City F.C.'' ''Town FC  City FC''"
  shows "\<exists>s'. iteration sample_site mq sample_fixture (start []) = Done s' \<and>
           textarea s' =
             join '',''
               [quoted ''E0'', quoted ''2018-01-01'', quoted ''Town FC'', quoted ''City FC'',
                ''2'', ''1'', quoted ''15:00'',
                quoted ''10 : home : 1-0 / 55 : away : 1-1 / 80 : home : 2-1'',
                String_number (toFixed3 (mq ''Town F.C.  City F.C.'' ''Town FC  City FC'')),
                quoted ''Town F.C.'', quoted ''City F.C.''] @ [CHR 0x0A]"
proof -
  let ?s1 = "final (load_index sample_site (dateURL ''2018-01-01'') (start []))"
  let ?q = "mq ''Town F.C.  City F.C.'' ''Town FC  City FC''"
  let ?best = "(Some sample_pageMatch, ?q)"
  have md: "matchdate sample_fixture = Some ''2018-01-01''"
    by (simp add: sample_fixture_def)
  have t: "textarea ?s1 = []"
    by code_simp
  have it: "iteration sample_site mq sample_fixture (start []) =
      retrieve_and_save sample_site sample_fixture ?best ?s1"
    unfolding iteration_def md option.case
    by (subst sample_load_index)
      (simp add: sample_getMatches sample_matching sample_bestMatch [of mq, OF assms])
  have cols: "row_columns sample_fixture ?best (Some ''15:00'') sample_goals =
      [quoted ''E0'', quoted ''2018-01-01'', quoted ''Town FC'', quoted ''City FC'',
       ''2'', ''1'', quoted ''15:00'',
       quoted ''10 : home : 1-0 / 55 : away : 1-1 / 80 : home : 2-1'',
       String_number (toFixed3 ?q), quoted ''Town F.C.'', quoted ''City F.C.'']"
    unfolding row_columns_def sample_goals_text
    using sample_source_columns by (simp add: field_column_def sample_pageMatch_def)
  have "\<exists>s'. retrieve_and_save sample_site sample_fixture ?best ?s1 = Done s' \<and>
      textarea s' = textarea ?s1 @
        join '','' (row_columns sample_fixture ?best (Some ''15:00'') sample_goals) @ [CHR 0x0A]"
    by (simp add: retrieve_and_save_def Let_def sample_match_page sample_kickOff sample_goals_of
        writeCSV_row_values sleepBetween_def emit_def)
  then show ?thesis
    unfolding it cols t by simp
qed

theorem sample_row_goal_column_witness:
  "(0::rat) < (\<lambda>c s. 1 / 2) ''Town F.C.  City F.C.'' ''Town FC  City FC'' \<and>
   textarea (final (iteration sample_site (\<lambda>c s. 1 / 2) sample_fixture (start []))) =
     ''\"E0\",\"2018-01-01\",\"Town FC\",\"City FC\",2,1,\"15:00\",'' @
     ''\"10 : home : 1-0 / 55 : away : 1-1 / 80 : home : 2-1\",0.5,\"Town F.C.\",\"City F.C.\"'' @
     [CHR 0x0A]"
proof -
  let ?mq = "\<lambda>c s::string. 1 / (2::rat)"
  have h: "0 < ?mq ''Town F.C.  City F.C.'' ''Town FC  City FC''"
    by simp
  have line: "join '',''
       [quoted ''E0'', quoted ''2018-01-01'', quoted ''Town FC'', quoted ''City FC'',
        ''2'', ''1'', quoted ''15:00'',
        quoted ''10 : home : 1-0 / 55 : away : 1-1 / 80 : home : 2-1'',
        String_number (toFixed3 (?mq ''Town F.C.  City F.C.'' ''Town FC  City FC'')),
        quoted ''Town F.C.'', quoted ''City F.C.''] @ [CHR 0x0A] =
     ''\"E0\",\"2018-01-01\",\"Town FC\",\"City FC\",2,1,\"15:00\",'' @
     ''\"10 : home : 1-0 / 55 : away : 1-1 / 80 : home : 2-1\",0.5,\"Town F.C.\",\"City F.C.\"'' @
     [CHR 0x0A]"
    by code_simp
  from sample_row_goal_column [of ?mq, OF h] obtain s' where
    "iteration sample_site ?mq sample_fixture (start []) = Done s'"
    "textarea s' = join '',''
       [quoted ''E0'', quoted ''2018-01-01'', quoted ''Town FC'', quoted ''City FC'',
        ''2'', ''1'', quoted ''15:00'',
        quoted ''10 : home : 1-0 / 55 : away : 1-1 / 80 : home : 2-1'',
        String_number (toFixed3 (?mq ''Town F.C.  City F.C.'' ''Town FC  City FC'')),
        quoted ''Town F.C.'', quoted ''City F.C.''] @ [CHR 0x0A]"
    by blast
  then have "textarea (final (iteration sample_site ?mq sample_fixture (start []))) =
     ''\"E0\",\"2018-01-01\",\"Town FC\",\"City FC\",2,1,\"15:00\",'' @
     ''\"10 : home : 1-0 / 55 : away : 1-1 / 80 : home : 2-1\",0.5,\"Town F.C.\",\"City F.C.\"'' @
     [CHR 0x0A]"
    unfolding line by simp
  with h show ?thesis by blast
qed

text \<open>
  The claim as worded fails on the separator inside a goal: the text the claim gives has
  bare colons, the code puts a space on each side of them.
\<close>

theorem goal_text_spacing_counterexample:
  "goals_of sample_match = Inr sample_goals \<and>
   goals_text sample_goals = ''10 : home : 1-0 / 55 : away : 1-1 / 80 : home : 2-1'' \<and>
   goals_text sample_goals \<noteq> ''10:home:1-0 / 55:away:1-1 / 80:home:2-1'' \<and>
   row_columns sample_fixture (Some sample_pageMatch, 1 / 2) (Some ''15:00'') sample_goals ! 7 \<noteq>
     ''10:home:1-0 / 55:away:1-1 / 80:home:2-1''"
  by code_simp

section \<open>Reuse of the index page\<close>

lemma load_index_elsewhere:
  assumes "index_href s \<noteq> u" and "load_index w u s = Done s1"
  shows "index_href s1 = u \<and> trace s1 = trace s @ [Navigate IndexFrame u, Sleep 1 2, ClickUK]"
  using assms
  by (auto simp: load_index_def clickUK_def sleepBetween_def emit_def split: if_splits)

text \<open>
  C4. If the index frame is already on the address, the load step returns at once with
  the browser untouched: no navigation, no sleep, no click. So when the frame starts on
  another address and the step is run twice in a row for the same address (the first run
  completing), the second run changes nothing and the two together navigate exactly
  once.
\<close>

theorem load_index_reuse:
  "(index_href s = u \<longrightarrow> load_index w u s = Done s) \<and>
   (index_href s \<noteq> u \<and> load_index w u s = Done s1 \<longrightarrow>
      load_index w u s1 = Done s1 \<and>
      and_then (load_index w u s) (load_index w u) = Done s1 \<and>
      navigations (drop (length (trace s)) (trace s1)) = [Navigate IndexFrame u])"
proof -
  have a: "index_href s = u \<longrightarrow> load_index w u s = Done s"
    by (simp add: load_index_def)
  have b: "index_href s \<noteq> u \<and> load_index w u s = Done s1 \<longrightarrow>
      load_index w u s1 = Done s1 \<and>
      and_then (load_index w u s) (load_index w u) = Done s1 \<and>
      navigations (drop (length (trace s)) (trace s1)) = [Navigate IndexFrame u]"
  proof
    assume h: "index_href s \<noteq> u \<and> load_index w u s = Done s1"
    then have r: "index_href s1 = u" "trace s1 = trace s @ [Navigate IndexFrame u, Sleep 1 2, ClickUK]"
      using load_index_elsewhere [of s u w s1] by simp_all
    from r(1) have again: "load_index w u s1 = Done s1"
      by (simp add: load_index_def)
    with h have "and_then (load_index w u s) (load_index w u) = Done s1"
      by simp
    moreover have "navigations (drop (length (trace s)) (trace s1)) = [Navigate IndexFrame u]"
      unfolding r(2) by (simp add: navigations_def)
    ultimately show "load_index w u s1 = Done s1 \<and>
      and_then (load_index w u s) (load_index w u) = Done s1 \<and>
      navigations (drop (length (trace s)) (trace s1)) = [Navigate IndexFrame u]"
      using again by blast
  qed
  from a b show ?thesis by blast
qed

theorem load_index_reuse_witness:
  "index_href (start []) \<noteq> dateURL ''2018-01-01'' \<and>
   load_index sample_site (dateURL ''2018-01-01'') (start []) =
     Done (final (load_index sample_site (dateURL ''2018-01-01'') (start []))) \<and>
   navigations (trace (final (and_then (load_index sample_site (dateURL ''2018-01-01'') (start []))
       (load_index sample_site (dateURL ''2018-01-01''))))) =
     [Navigate IndexFrame ''https://uk.soccerway.com/matches/2018/01/01/'']"
proof -
  let ?u = "dateURL ''2018-01-01''"
  let ?s1 = "final (load_index sample_site ?u (start []))"
  have h1: "index_href (start []) \<noteq> ?u" by code_simp
  have u: "?u = ''https://uk.soccerway.com/matches/2018/01/01/''" by code_simp
  have t0: "trace (start []) = []" by (simp add: start_def)
  from load_index_reuse [of "start []" ?u sample_site ?s1] h1 sample_load_index
  have "and_then (load_index sample_site ?u (start [])) (load_index sample_site ?u) = Done ?s1"
    and "navigations (drop (length (trace (start []))) (trace ?s1)) = [Navigate IndexFrame ?u]"
    by blast+
  then have "navigations (trace (final (and_then (load_index sample_site ?u (start []))
       (load_index sample_site ?u)))) = [Navigate IndexFrame ''https://uk.soccerway.com/matches/2018/01/01/'']"
    unfolding t0 using u by simp
  with h1 sample_load_index show ?thesis by blast
qed

section \<open>Where the delays fall\<close>






section \<open>The wait for the refreshed listing\<close>

lemma deliver_all_quiet:
  "\<forall>b\<in>set batches. \<not> has_removal b \<Longrightarrow> deliver_all batches ob = ob"
  unfolding deliver_all_def
  by (induction batches arbitrary: ob) (simp_all add: deliver_def callback_def has_removal_def)

lemma deliver_all_disconnected:
  "\<not> connected ob \<Longrightarrow> deliver_all batches ob = ob"
  unfolding deliver_all_def
  by (induction batches arbitrary: ob) (simp_all add: deliver_def)

lemma deliver_all_append:
  "deliver_all (xs @ ys) ob = deliver_all ys (deliver_all xs ob)"
  by (simp add: deliver_all_def)

text \<open>
  C6. While the batches delivered since the wait began hold no removed node (only
  insertions or other changes), the promise is not resolved and the observer stays
  connected. The first batch holding a removed node resolves the promise and disconnects
  the observer in the same step; whatever is delivered afterwards changes nothing, so the
  promise is resolved exactly once.
\<close>

theorem wait_resolves_once_on_first_removal:
  "((\<forall>b\<in>set batches. \<not> has_removal b) \<longrightarrow> deliver_all batches observing = observing) \<and>
   ((\<forall>b\<in>set before. \<not> has_removal b) \<and> has_removal batch \<longrightarrow>
      deliver_all (before @ [batch]) observing = \<lparr>connected = False, resolved = 1\<rparr> \<and>
      deliver_all (before @ batch # after) observing = \<lparr>connected = False, resolved = 1\<rparr>)"
proof -
  have a: "(\<forall>b\<in>set batches. \<not> has_removal b) \<longrightarrow> deliver_all batches observing = observing"
    using deliver_all_quiet by blast
  have b: "(\<forall>b\<in>set before. \<not> has_removal b) \<and> has_removal batch \<longrightarrow>
      deliver_all (before @ [batch]) observing = \<lparr>connected = False, resolved = 1\<rparr> \<and>
      deliver_all (before @ batch # after) observing = \<lparr>connected = False, resolved = 1\<rparr>"
  proof
    assume h: "(\<forall>b\<in>set before. \<not> has_removal b) \<and> has_removal batch"
    then have q: "deliver_all before observing = observing"
      using deliver_all_quiet by blast
    from h have one: "deliver_all [batch] observing = \<lparr>connected = False, resolved = 1\<rparr>"
      by (simp add: deliver_all_def deliver_def callback_def has_removal_def observing_def)
    have first: "deliver_all (before @ [batch]) observing = \<lparr>connected = False, resolved = 1\<rparr>"
      by (simp only: deliver_all_append q one)
    have "deliver_all (before @ batch # after) observing =
        deliver_all after (deliver_all (before @ [batch]) observing)"
      using deliver_all_append [of "before @ [batch]" after observing] by simp
    also have "\<dots> = \<lparr>connected = False, resolved = 1\<rparr>"
      unfolding first by (rule deliver_all_disconnected) simp
    finally show "deliver_all (before @ [batch]) observing = \<lparr>connected = False, resolved = 1\<rparr> \<and>
      deliver_all (before @ batch # after) observing = \<lparr>connected = False, resolved = 1\<rparr>"
      using first by blast
  qed
  from a b show ?thesis by blast
qed

theorem wait_resolves_once_on_first_removal_witness:
  "list_all (\<lambda>b. \<not> has_removal b)
     [[\<lparr>addedNodes = 1, removedNodes = 0\<rparr>], [\<lparr>addedNodes = 0, removedNodes = 0\<rparr>]] \<and>
   has_removal [\<lparr>addedNodes = 3, removedNodes = 0\<rparr>, \<lparr>addedNodes = 0, removedNodes = 1\<rparr>] \<and>
   deliver_all
     [[\<lparr>addedNodes = 1, removedNodes = 0\<rparr>], [\<lparr>addedNodes = 0, removedNodes = 0\<rparr>]] observing =
     observing \<and>
   deliver_all
     ([[\<lparr>addedNodes = 1, removedNodes = 0\<rparr>], [\<lparr>addedNodes = 0, removedNodes = 0\<rparr>]] @
      [\<lparr>addedNodes = 3, removedNodes = 0\<rparr>, \<lparr>addedNodes = 0, removedNodes = 1\<rparr>] #
      [[\<lparr>addedNodes = 0, removedNodes = 2\<rparr>], [\<lparr>addedNodes = 1, removedNodes = 0\<rparr>]]) observing =
     \<lparr>connected = False, resolved = 1\<rparr>"
proof -
  let ?before = "[[\<lparr>addedNodes = 1, removedNodes = 0\<rparr>], [\<lparr>addedNodes = 0, removedNodes = 0\<rparr>]]"
  let ?batch = "[\<lparr>addedNodes = 3, removedNodes = 0\<rparr>, \<lparr>addedNodes = 0, removedNodes = 1\<rparr>]"
  let ?after = "[[\<lparr>addedNodes = 0, removedNodes = 2\<rparr>], [\<lparr>addedNodes = 1, removedNodes = 0\<rparr>]]"
  have q: "list_all (\<lambda>b. \<not> has_removal b) ?before" by code_simp
  then have h1: "\<forall>b\<in>set ?before. \<not> has_removal b" by (simp only: list_all_iff)
  have h2: "has_removal ?batch" by code_simp
  from wait_resolves_once_on_first_removal [of ?before ?before ?batch ?after] h1 h2
  have "deliver_all ?before observing = observing"
    and "deliver_all (?before @ ?batch # ?after) observing = \<lparr>connected = False, resolved = 1\<rparr>"
    by blast+
  with q h2 show ?thesis by blast
qed

section \<open>Resuming after a restart\<close>





















end
